theory Spec2Isabelle
  imports Complex_Main "HOL-Library.Sublist" "HOL-Library.Char_ord" "HOL-Library.List_Lexorder"
    "HOL-Library.Product_Lexorder"
begin

section \<open>Python values, exceptions and the text of a value\<close>

text \<open>
  The responses of the batch and log services are JSON-like Python values: dictionaries
  with string keys (kept as association lists, in insertion order), lists, strings,
  integers, booleans and \<open>None\<close>.
\<close>

datatype pyval = PNone | PBool bool | PInt int | PStr string
  | PList "pyval list" | PDict "(string \<times> pyval) list"

text \<open>
  Every exception of the script is a value. \<open>ClientError\<close> stands for any error raised by
  a service call.
\<close>

datatype error = KeyError string | IndexError | TypeError | AttributeError | ValueError
  | UnboundLocalError string | ClientError string

type_synonym 'a result = "error + 'a"

definition bind :: "'a result \<Rightarrow> ('a \<Rightarrow> 'b result) \<Rightarrow> 'b result" where
  "bind m f = (case m of Inl e \<Rightarrow> Inl e | Inr x \<Rightarrow> f x)"

text \<open>\<open>v[k]\<close> for a string key: only a dictionary accepts it.\<close>

definition subscr_key :: "pyval \<Rightarrow> string \<Rightarrow> pyval result" where
  "subscr_key v k =
     (case v of
        PDict kvs \<Rightarrow> (case map_of kvs k of None \<Rightarrow> Inl (KeyError k) | Some x \<Rightarrow> Inr x)
      | _ \<Rightarrow> Inl TypeError)"

definition digit_char :: "nat \<Rightarrow> char" where
  "digit_char n = ''0123456789abcdef'' ! n"

function show_nat :: "nat \<Rightarrow> string" where
  "show_nat n =
     (if n < 10 then [digit_char n] else show_nat (n div 10) @ [digit_char (n mod 10)])"
  by pat_completeness auto
termination
  by (relation "measure id") auto

declare show_nat.simps [simp del]

definition show_int :: "int \<Rightarrow> string" where
  "show_int i = (if i < 0 then CHR ''-'' # show_nat (nat (- i)) else show_nat (nat i))"

text \<open>\<open>v[i]\<close> for a literal index \<open>i \<ge> 0\<close>.\<close>

definition subscr_idx :: "pyval \<Rightarrow> nat \<Rightarrow> pyval result" where
  "subscr_idx v i =
     (case v of
        PList xs \<Rightarrow> if i < length xs then Inr (xs ! i) else Inl IndexError
      | PStr s \<Rightarrow> if i < length s then Inr (PStr [s ! i]) else Inl IndexError
      | PDict kvs \<Rightarrow> Inl (KeyError (show_nat i))
      | _ \<Rightarrow> Inl TypeError)"

text \<open>\<open>for x in v\<close>: the elements of a list, the characters of a string, the keys of a dictionary.\<close>

definition py_iter :: "pyval \<Rightarrow> pyval list result" where
  "py_iter v =
     (case v of
        PList xs \<Rightarrow> Inr xs
      | PStr s \<Rightarrow> Inr (map (\<lambda>c. PStr [c]) s)
      | PDict kvs \<Rightarrow> Inr (map (\<lambda>kv. PStr (fst kv)) kvs)
      | _ \<Rightarrow> Inl TypeError)"

definition py_len :: "pyval \<Rightarrow> nat result" where
  "py_len v =
     (case v of
        PList xs \<Rightarrow> Inr (length xs)
      | PStr s \<Rightarrow> Inr (length s)
      | PDict kvs \<Rightarrow> Inr (length kvs)
      | _ \<Rightarrow> Inl TypeError)"

text \<open>\<open>k in v\<close> for a string \<open>k\<close> (the \<open>in\<close> operator on a dictionary tests its keys).\<close>

fun str_contains :: "string \<Rightarrow> string \<Rightarrow> bool" where
  "str_contains sub [] = (sub = [])"
| "str_contains sub (c # cs) = (prefix sub (c # cs) \<or> str_contains sub cs)"

definition py_in :: "string \<Rightarrow> pyval \<Rightarrow> bool result" where
  "py_in k v =
     (case v of
        PDict kvs \<Rightarrow> Inr (k \<in> fst ` set kvs)
      | PList xs \<Rightarrow> Inr (PStr k \<in> set xs)
      | PStr s \<Rightarrow> Inr (str_contains k s)
      | _ \<Rightarrow> Inl TypeError)"

text \<open>\<open>v.keys()\<close> exists on dictionaries only.\<close>

definition py_keys :: "pyval \<Rightarrow> string list result" where
  "py_keys v = (case v of PDict kvs \<Rightarrow> Inr (map fst kvs) | _ \<Rightarrow> Inl AttributeError)"

text \<open>Truth value of a Python value, as \<open>not v\<close> and \<open>if v\<close> read it.\<close>

definition truthy :: "pyval \<Rightarrow> bool" where
  "truthy v =
     (case v of
        PNone \<Rightarrow> False
      | PBool b \<Rightarrow> b
      | PInt i \<Rightarrow> i \<noteq> 0
      | PStr s \<Rightarrow> s \<noteq> []
      | PList xs \<Rightarrow> xs \<noteq> []
      | PDict kvs \<Rightarrow> kvs \<noteq> [])"

text \<open>
  \<open>repr\<close> of a string: single quotes, unless the string has a single quote and no double
  quote; the quote character and the backslash are escaped, control characters are
  written \<open>\n\<close>, \<open>\r\<close>, \<open>\t\<close> or \<open>\xNN\<close>.
\<close>

definition quote_char :: "string \<Rightarrow> char" where
  "quote_char s = (if CHR 0x27 \<in> set s \<and> CHR 0x22 \<notin> set s then CHR 0x22 else CHR 0x27)"

definition escape_char :: "char \<Rightarrow> char \<Rightarrow> string" where
  "escape_char q c =
     (if c = q \<or> c = CHR 0x5C then [CHR 0x5C, c]
      else if c = CHR 0x0A then [CHR 0x5C, CHR ''n'']
      else if c = CHR 0x0D then [CHR 0x5C, CHR ''r'']
      else if c = CHR 0x09 then [CHR 0x5C, CHR ''t'']
      else if (of_char c :: nat) < 32 \<or> (of_char c :: nat) = 127
        then [CHR 0x5C, CHR ''x'', digit_char (of_char c div 16), digit_char (of_char c mod 16)]
      else [c])"

definition repr_str :: "string \<Rightarrow> string" where
  "repr_str s = quote_char s # concat (map (escape_char (quote_char s)) s) @ [quote_char s]"

text \<open>\<open>sep.join(xs)\<close> on a list of strings.\<close>

fun join :: "string \<Rightarrow> string list \<Rightarrow> string" where
  "join sep [] = []"
| "join sep [x] = x"
| "join sep (x # y # ys) = x @ sep @ join sep (y # ys)"

fun py_repr :: "pyval \<Rightarrow> string" where
  "py_repr PNone = ''None''"
| "py_repr (PBool b) = (if b then ''True'' else ''False'')"
| "py_repr (PInt i) = show_int i"
| "py_repr (PStr s) = repr_str s"
| "py_repr (PList xs) = ''['' @ join '', '' (map py_repr xs) @ '']''"
| "py_repr (PDict kvs) =
     ''{'' @ join '', '' (map (\<lambda>kv. repr_str (fst kv) @ '': '' @ py_repr (snd kv)) kvs) @ ''}''"

text \<open>\<open>str(v)\<close>: a string is itself, every other value is its \<open>repr\<close>.\<close>

definition py_str :: "pyval \<Rightarrow> string" where
  "py_str v = (case v of PStr s \<Rightarrow> s | _ \<Rightarrow> py_repr v)"

section \<open>Job id discovery: \<open>get_batch_job_id_list\<close>\<close>

text \<open>
  The batch client of the run. The queue name and the page size are fixed for a run, so
  \<open>list_jobs\<close> takes the job status and the continuation token (\<open>None\<close> for the first
  call of a status), and \<open>describe_jobs\<close> takes the one job id it is called with.
\<close>

record batch_client =
  list_jobs :: "string \<Rightarrow> pyval option \<Rightarrow> pyval result"
  describe_jobs :: "pyval \<Rightarrow> pyval result"

definition status_needed :: "string list" where
  "status_needed = [''SUCCEEDED'', ''FAILED'', ''RUNNING'']"

text \<open>
  \<open>x['createdAt'] > epoch_batch_start\<close>: the cutoff is a whole number of milliseconds
  (seconds since the epoch times 1000); a number compares with it, anything else raises.
\<close>

definition py_gt :: "pyval \<Rightarrow> int \<Rightarrow> bool result" where
  "py_gt v c =
     (case v of
        PInt i \<Rightarrow> Inr (i > c)
      | PBool b \<Rightarrow> Inr ((if b then 1 else 0) > c)
      | _ \<Rightarrow> Inl TypeError)"

text \<open>The \<open>for x in response['jobSummaryList']\<close> loop, appending to \<open>temp_job_ids\<close>.\<close>

fun collect_job_ids :: "int \<Rightarrow> pyval list \<Rightarrow> pyval list \<Rightarrow> pyval list result" where
  "collect_job_ids epoch_batch_start [] temp_job_ids = Inr temp_job_ids"
| "collect_job_ids epoch_batch_start (x # xs) temp_job_ids =
     bind (subscr_key x ''createdAt'') (\<lambda>created.
     bind (py_gt created epoch_batch_start) (\<lambda>later.
       if later
       then bind (subscr_key x ''jobId'') (\<lambda>job_id.
              collect_job_ids epoch_batch_start xs (temp_job_ids @ [job_id]))
       else collect_job_ids epoch_batch_start xs temp_job_ids))"

definition page_job_ids :: "int \<Rightarrow> pyval \<Rightarrow> pyval list \<Rightarrow> pyval list result" where
  "page_job_ids epoch_batch_start response temp_job_ids =
     bind (subscr_key response ''jobSummaryList'') (\<lambda>summaries.
     bind (py_iter summaries) (\<lambda>xs.
       collect_job_ids epoch_batch_start xs temp_job_ids))"

text \<open>
  The token after a page of the \<open>while\<close> loop:
  \<open>response['nextToken'] if 'nextToken' in response.keys() else None\<close>.
\<close>

definition next_token_keys :: "pyval \<Rightarrow> pyval result" where
  "next_token_keys response =
     bind (py_keys response) (\<lambda>ks.
       if ''nextToken'' \<in> set ks then subscr_key response ''nextToken'' else Inr PNone)"

text \<open>
  The token after the first page of a status:
  \<open>response['nextToken'] if 'nextToken' in str(response) else None\<close>.
\<close>

definition next_token_str :: "pyval \<Rightarrow> pyval result" where
  "next_token_str response =
     (if str_contains ''nextToken'' (py_str response)
      then subscr_key response ''nextToken'' else Inr PNone)"

text \<open>
  The \<open>while nextToken != None\<close> loop. Nothing bounds it: a service that keeps returning
  tokens is paged forever, so the loop is a partial function and not returning is \<open>None\<close>.
\<close>

partial_function (option) paginate ::
  "batch_client \<Rightarrow> string \<Rightarrow> int \<Rightarrow> pyval \<Rightarrow> pyval list \<Rightarrow> pyval list result option" where
  "paginate client job_status epoch_batch_start nextToken temp_job_ids =
     (if nextToken = PNone then Some (Inr temp_job_ids)
      else
        (case list_jobs client job_status (Some nextToken) of
           Inl e \<Rightarrow> Some (Inl e)
         | Inr response \<Rightarrow>
             (case page_job_ids epoch_batch_start response temp_job_ids of
                Inl e \<Rightarrow> Some (Inl e)
              | Inr temp_job_ids' \<Rightarrow>
                  (case next_token_keys response of
                     Inl e \<Rightarrow> Some (Inl e)
                   | Inr nextToken' \<Rightarrow>
                       paginate client job_status epoch_batch_start nextToken' temp_job_ids'))))"

declare paginate.simps [code]

text \<open>One round of the \<open>for job_status in status_needed\<close> loop: the ids of one status.\<close>

definition job_ids_with_status ::
  "batch_client \<Rightarrow> int \<Rightarrow> string \<Rightarrow> pyval list result option" where
  "job_ids_with_status client epoch_batch_start job_status =
     (case list_jobs client job_status None of
        Inl e \<Rightarrow> Some (Inl e)
      | Inr response \<Rightarrow>
          (case page_job_ids epoch_batch_start response [] of
             Inl e \<Rightarrow> Some (Inl e)
           | Inr temp_job_ids \<Rightarrow>
               (case next_token_str response of
                  Inl e \<Rightarrow> Some (Inl e)
                | Inr nextToken \<Rightarrow>
                    paginate client job_status epoch_batch_start nextToken temp_job_ids)))"

fun status_loop ::
  "batch_client \<Rightarrow> int \<Rightarrow> string list \<Rightarrow> pyval list \<Rightarrow> pyval list result option" where
  "status_loop client epoch_batch_start [] job_id_list = Some (Inr job_id_list)"
| "status_loop client epoch_batch_start (job_status # rest) job_id_list =
     (case job_ids_with_status client epoch_batch_start job_status of
        None \<Rightarrow> None
      | Some (Inl e) \<Rightarrow> Some (Inl e)
      | Some (Inr temp_job_ids) \<Rightarrow>
          status_loop client epoch_batch_start rest (job_id_list @ temp_job_ids))"

definition get_batch_job_id_list :: "batch_client \<Rightarrow> int \<Rightarrow> pyval list result option" where
  "get_batch_job_id_list client epoch_batch_start =
     status_loop client epoch_batch_start status_needed []"

section \<open>Job detail enrichment: \<open>get_job_details\<close>\<close>

text \<open>\<open>v.split("/")[-1]\<close>: only a string has \<open>split\<close>; the last piece follows the last slash.\<close>

definition arn_ending :: "pyval \<Rightarrow> string result" where
  "arn_ending v =
     (case v of
        PStr s \<Rightarrow> Inr (rev (takeWhile (\<lambda>c. c \<noteq> CHR ''/'') (rev s)))
      | _ \<Rightarrow> Inl AttributeError)"

text \<open>A list comprehension whose element expression may raise.\<close>

fun map_result :: "('a \<Rightarrow> 'b result) \<Rightarrow> 'a list \<Rightarrow> 'b list result" where
  "map_result f [] = Inr []"
| "map_result f (x # xs) = bind (f x) (\<lambda>y. bind (map_result f xs) (\<lambda>ys. Inr (y # ys)))"

definition container_arn_ending :: "string \<Rightarrow> pyval \<Rightarrow> string result" where
  "container_arn_ending k i =
     bind (subscr_key i ''container'') (\<lambda>c. bind (subscr_key c k) arn_ending)"

text \<open>\<open>a + b\<close> where one side is known to be a string: both must be.\<close>

definition str_add :: "pyval \<Rightarrow> pyval \<Rightarrow> pyval result" where
  "str_add a b =
     (case a of
        PStr s \<Rightarrow> (case b of PStr t \<Rightarrow> Inr (PStr (s @ t)) | _ \<Rightarrow> Inl TypeError)
      | _ \<Rightarrow> Inl TypeError)"

text \<open>The \<open>for i in response['jobs'][0]['attempts']\<close> loop that joins the failure reasons.\<close>

fun collect_reasons :: "pyval list \<Rightarrow> pyval \<Rightarrow> pyval result" where
  "collect_reasons [] reasons = Inr reasons"
| "collect_reasons (i # rest) reasons =
     (if str_contains ''reason'' (py_str i)
      then bind (if \<not> truthy reasons
                 then bind (subscr_key i ''container'') (\<lambda>c. subscr_key c ''reason'')
                 else bind (str_add reasons (PStr ''|'')) (\<lambda>left.
                      bind (subscr_key i ''container'') (\<lambda>c.
                      bind (subscr_key c ''reason'') (\<lambda>r. str_add left r))))
             (\<lambda>reasons'. collect_reasons rest reasons')
      else collect_reasons rest reasons)"

text \<open>\<open>d[k] if k in d else None\<close>.\<close>

definition get_or_none :: "pyval \<Rightarrow> string \<Rightarrow> pyval result" where
  "get_or_none d k = bind (py_in k d) (\<lambda>b. if b then subscr_key d k else Inr PNone)"

text \<open>
  \<open>container[k] if k in str(container) else container['resourceRequirements'][n]['value']\<close>:
  the test reads the text of the container object, not its keys.
\<close>

definition resource_value :: "pyval \<Rightarrow> string \<Rightarrow> nat \<Rightarrow> pyval result" where
  "resource_value job k n =
     bind (subscr_key job ''container'') (\<lambda>container.
       if str_contains k (py_str container)
       then bind (subscr_key job ''container'') (\<lambda>c. subscr_key c k)
       else bind (subscr_key job ''container'') (\<lambda>c.
            bind (subscr_key c ''resourceRequirements'') (\<lambda>reqs.
            bind (subscr_idx reqs n) (\<lambda>req. subscr_key req ''value''))))"

text \<open>
  The instance and task identifiers of a job, by its status. \<open>list(set(xs))\<close> keeps one
  copy of each string, in the order in which the interpreter of the run iterates the set;
  that order depends on the hash seed of the process, so \<open>list_of_set\<close> is a parameter
  of the model.
\<close>

definition instances_and_tasks ::
  "(string list \<Rightarrow> string list) \<Rightarrow> pyval \<Rightarrow> pyval \<Rightarrow> (string list \<times> string list) result" where
  "instances_and_tasks list_of_set job status =
     (if status = PStr ''RUNNING''
      then bind (container_arn_ending ''containerInstanceArn'' job) (\<lambda>arn.
           bind (container_arn_ending ''taskArn'' job) (\<lambda>task.
             Inr ([arn], [task])))
      else bind (subscr_key job ''attempts'') (\<lambda>attempts.
           bind (py_iter attempts) (\<lambda>is.
           bind (map_result (container_arn_ending ''containerInstanceArn'') is) (\<lambda>arns.
           bind (subscr_key job ''attempts'') (\<lambda>attempts'.
           bind (py_iter attempts') (\<lambda>is'.
           bind (map_result (container_arn_ending ''taskArn'') is') (\<lambda>tasks.
             Inr (list_of_set arns, list_of_set tasks))))))))"

text \<open>The flat record appended to \<open>final_list\<close> for one job, one field per key.\<close>

record job_record =
  job_id :: pyval
  job_name :: pyval
  job_status :: pyval
  started_at :: pyval
  stopped_at :: pyval
  image_field :: pyval
  vcpus :: pyval
  memory :: pyval
  num_attempts :: nat
  num_of_instances :: nat
  instance_arn_endings :: string
  task_id :: string
  reasons :: pyval

text \<open>The body of the \<open>try\<close> block after the fetch: everything read from one response.\<close>

definition job_fields ::
  "(string list \<Rightarrow> string list) \<Rightarrow> pyval \<Rightarrow> pyval \<Rightarrow> job_record result" where
  "job_fields list_of_set jid response =
     bind (subscr_key response ''jobs'') (\<lambda>jobs.
     bind (subscr_idx jobs 0) (\<lambda>job.
     bind (subscr_key job ''status'') (\<lambda>status.
     bind (instances_and_tasks list_of_set job status) (\<lambda>(container_instance_arns, task_ids).
     bind (subscr_key job ''attempts'') (\<lambda>attempts.
     bind (py_iter attempts) (\<lambda>is.
     bind (collect_reasons is PNone) (\<lambda>rs.
     bind (subscr_key job ''jobName'') (\<lambda>name.
     bind (get_or_none job ''startedAt'') (\<lambda>started.
     bind (get_or_none job ''stoppedAt'') (\<lambda>stopped.
     bind (subscr_key job ''container'') (\<lambda>container.
     bind (subscr_key container ''image'') (\<lambda>img.
     bind (resource_value job ''vcpus'' 0) (\<lambda>cpu.
     bind (resource_value job ''memory'' 1) (\<lambda>mem.
     bind (py_len attempts) (\<lambda>n.
       Inr \<lparr> job_id = jid, job_name = name, job_status = status,
             started_at = started, stopped_at = stopped, image_field = img,
             vcpus = cpu, memory = mem, num_attempts = n,
             num_of_instances = length container_instance_arns,
             instance_arn_endings = join ''|'' container_instance_arns,
             task_id = join ''|'' task_ids, reasons = rs \<rparr>)))))))))))))))"

text \<open>
  The \<open>for job_id in job_id_list\<close> loop. The local variable \<open>response\<close> is unbound until
  a fetch has returned, and keeps the last fetched response afterwards; the handler of the
  bare \<open>except\<close> reads it to format the warning, so it raises when no fetch has returned
  yet. The warnings logged are kept as the pairs (job id, response printed).
\<close>

fun job_loop ::
  "batch_client \<Rightarrow> (string list \<Rightarrow> string list) \<Rightarrow> pyval list \<Rightarrow> job_record list
    \<Rightarrow> pyval option \<Rightarrow> (pyval \<times> pyval) list
    \<Rightarrow> (job_record list \<times> (pyval \<times> pyval) list) result" where
  "job_loop client list_of_set [] final_list response warnings = Inr (final_list, warnings)"
| "job_loop client list_of_set (jid # rest) final_list response warnings =
     (case describe_jobs client jid of
        Inl e \<Rightarrow>
          (case response of
             None \<Rightarrow> Inl (UnboundLocalError ''response'')
           | Some r \<Rightarrow>
               job_loop client list_of_set rest final_list response (warnings @ [(jid, r)]))
      | Inr r \<Rightarrow>
          (case job_fields list_of_set jid r of
             Inl e \<Rightarrow> job_loop client list_of_set rest final_list (Some r) (warnings @ [(jid, r)])
           | Inr row \<Rightarrow> job_loop client list_of_set rest (final_list @ [row]) (Some r) warnings))"

text \<open>A job fails when its fetch raises or when reading its response raises.\<close>

definition job_fails :: "batch_client \<Rightarrow> (string list \<Rightarrow> string list) \<Rightarrow> pyval \<Rightarrow> bool" where
  "job_fails client list_of_set jid =
     (case describe_jobs client jid of
        Inl e \<Rightarrow> True
      | Inr r \<Rightarrow> isl (job_fields list_of_set jid r))"

text \<open>
  The data frame built from \<open>final_list\<close> has the columns of its records; built from an
  empty list it has none, and reading the column \<open>started_at\<close> raises. Otherwise the two
  time columns are converted by \<open>pd.to_datetime(column, errors="coerce", unit='ms')\<close>.
  What pandas makes of one value of the column is the parameter \<open>to_datetime\<close> of the
  model: a time stamp is kept as its count of milliseconds (\<open>PInt\<close>), the missing time
  stamp \<open>NaT\<close> as \<open>PNone\<close>.
\<close>

definition get_job_details ::
  "batch_client \<Rightarrow> (string list \<Rightarrow> string list) \<Rightarrow> (pyval \<Rightarrow> pyval) \<Rightarrow> pyval list
    \<Rightarrow> (job_record list \<times> (pyval \<times> pyval) list) result" where
  "get_job_details client list_of_set to_datetime job_id_list =
     bind (job_loop client list_of_set job_id_list [] None []) (\<lambda>(final_list, warnings).
       if final_list = [] then Inl (KeyError ''started_at'')
       else Inr (map (\<lambda>row. row\<lparr> started_at := to_datetime (started_at row),
                               stopped_at := to_datetime (stopped_at row) \<rparr>) final_list,
                 warnings))"

section \<open>Resource usage query: \<open>get_resource_usage\<close>\<close>

text \<open>
  The log client of the run. The log group, the query string and the limit are fixed, so
  \<open>start_query\<close> takes the start and end time of a window. A query changes state while
  it is polled: \<open>get_query_results\<close> takes the query id and the number of results
  already fetched for it.
\<close>

record log_client =
  start_query :: "int \<Rightarrow> int \<Rightarrow> pyval result"
  get_query_results :: "pyval \<Rightarrow> nat \<Rightarrow> pyval result"

text \<open>
  A Container Insights message after \<open>ast.literal_eval\<close>: the keys the script reads, each
  absent (\<open>None\<close>) or present. Identifiers are strings, measurements are numbers of
  Python (an integer or a float), each kept as the real number it stands for.
\<close>

record log_message =
  Type :: "string option"
  TaskId :: "string option"
  ContainerInstanceId :: "string option"
  CpuUtilized :: "real option"
  CpuReserved :: "real option"
  MemoryUtilized :: "real option"
  MemoryReserved :: "real option"

text \<open>
  The values of a float64 column of a data frame: the finite ones are the reals
  \<open>m * 2 ^ k\<close> and \<open>m / 2 ^ k\<close> with a significand \<open>m\<close> of at most 53 bits and an
  exponent in range; the others are the two infinities and \<open>NaN\<close>.
\<close>

definition is_float64 :: "real \<Rightarrow> bool" where
  "is_float64 x =
     (\<exists>m :: int. \<exists>k :: nat. \<bar>m\<bar> < 2 ^ 53
        \<and> (k \<le> 971 \<and> x = of_int m * 2 ^ k \<or> k \<le> 1074 \<and> x = of_int m / 2 ^ k))"

typedef finite64 = "{x :: real. is_float64 x}"
  morphisms finite64_value finite64_of
proof
  have "\<bar>0 :: int\<bar> < 2 ^ 53 \<and> ((0 :: nat) \<le> 971 \<and> (0 :: real) = of_int 0 * 2 ^ 0
      \<or> (0 :: nat) \<le> 1074 \<and> (0 :: real) = of_int 0 / 2 ^ 0)"
    by simp
  then show "(0 :: real) \<in> {x. is_float64 x}"
    unfolding is_float64_def by blast
qed

datatype float64 = Finite finite64 | PosInf | NegInf | NaN


definition float64_of :: "real \<Rightarrow> float64" where
  "float64_of x = Finite (finite64_of x)"

text \<open>
  One record of \<open>final_output\<close> (measurements as read from the message, \<open>real\<close>), and
  one row of the averaged table (measurements in float64 columns).
\<close>

record 'v task_sample =
  sample_task_id :: string
  container_instance_id :: string
  cpu_used :: 'v
  cpu_passed :: 'v
  memory_used :: 'v
  memory_passed :: 'v

text \<open>
  The polling loop
  \<open>while response == None or response['status'] == 'Running': time.sleep(1); response = ...\<close>.
  \<open>n\<close> counts the rounds done so far; each round sleeps one second and fetches once. The
  loop has no bound, so it is a partial function. It returns the last response (or the
  exception raised) and the number of rounds.
\<close>

partial_function (option) poll_query ::
  "log_client \<Rightarrow> pyval \<Rightarrow> nat \<Rightarrow> (pyval result \<times> nat) option" where
  "poll_query logs query_id n =
     (case get_query_results logs query_id n of
        Inl e \<Rightarrow> Some (Inl e, Suc n)
      | Inr response \<Rightarrow>
          (if response = PNone then poll_query logs query_id (Suc n)
           else
             (case subscr_key response ''status'' of
                Inl e \<Rightarrow> Some (Inl e, Suc n)
              | Inr status \<Rightarrow>
                  if status = PStr ''Running'' then poll_query logs query_id (Suc n)
                  else Some (Inr response, Suc n))))"

declare poll_query.simps [code]

text \<open>The service reports the query as running at its \<open>i\<close>-th fetch.\<close>

definition reports_running :: "log_client \<Rightarrow> pyval \<Rightarrow> nat \<Rightarrow> bool" where
  "reports_running logs query_id i =
     (case get_query_results logs query_id i of
        Inl e \<Rightarrow> False
      | Inr response \<Rightarrow> subscr_key response ''status'' = Inr (PStr ''Running''))"

text \<open>\<open>key(m)\<close> of a message: a missing key raises.\<close>

definition msg_key :: "string \<Rightarrow> 'a option \<Rightarrow> 'a result" where
  "msg_key k v = (case v of None \<Rightarrow> Inl (KeyError k) | Some x \<Rightarrow> Inr x)"

definition sample_of :: "log_message \<Rightarrow> real task_sample result" where
  "sample_of temp_value =
     bind (msg_key ''TaskId'' (TaskId temp_value)) (\<lambda>t.
     bind (msg_key ''ContainerInstanceId'' (ContainerInstanceId temp_value)) (\<lambda>c.
     bind (msg_key ''CpuUtilized'' (CpuUtilized temp_value)) (\<lambda>cu.
     bind (msg_key ''CpuReserved'' (CpuReserved temp_value)) (\<lambda>cr.
     bind (msg_key ''MemoryUtilized'' (MemoryUtilized temp_value)) (\<lambda>mu.
     bind (msg_key ''MemoryReserved'' (MemoryReserved temp_value)) (\<lambda>mr.
       Inr \<lparr> sample_task_id = t, container_instance_id = c, cpu_used = cu,
             cpu_passed = cr, memory_used = mu, memory_passed = mr \<rparr>))))))"

text \<open>
  The body of \<open>for record in response['results']\<close>: \<open>literal_eval\<close> is the parser
  \<open>ast.literal_eval\<close>, a parameter of the model; the result is the record to append, if any.
\<close>

definition record_sample ::
  "(pyval \<Rightarrow> log_message result) \<Rightarrow> pyval \<Rightarrow> real task_sample option result" where
  "record_sample literal_eval rec =
     bind (subscr_idx rec 0) (\<lambda>field.
     bind (subscr_key field ''value'') (\<lambda>text.
     bind (literal_eval text) (\<lambda>temp_value.
     bind (msg_key ''Type'' (Type temp_value)) (\<lambda>ty.
       if ty = ''Task'' then bind (sample_of temp_value) (\<lambda>s. Inr (Some s))
       else Inr None))))"

text \<open>
  The loop over the records of one response. An exception leaves the loop with the
  records appended so far still in \<open>final_output\<close>.
\<close>

fun collect_records ::
  "(pyval \<Rightarrow> log_message result) \<Rightarrow> pyval list \<Rightarrow> real task_sample list
    \<Rightarrow> error option \<times> real task_sample list" where
  "collect_records literal_eval [] final_output = (None, final_output)"
| "collect_records literal_eval (rec # rest) final_output =
     (case record_sample literal_eval rec of
        Inl e \<Rightarrow> (Some e, final_output)
      | Inr None \<Rightarrow> collect_records literal_eval rest final_output
      | Inr (Some s) \<Rightarrow> collect_records literal_eval rest (final_output @ [s]))"

text \<open>
  One round of the window loop, from \<open>start_query\<close> to the last record: the exception
  raised if any, the new \<open>final_output\<close>, and the seconds slept.
\<close>

definition run_window ::
  "log_client \<Rightarrow> (pyval \<Rightarrow> log_message result) \<Rightarrow> int \<Rightarrow> int \<Rightarrow> real task_sample list
    \<Rightarrow> (error option \<times> real task_sample list \<times> nat) option" where
  "run_window logs literal_eval start end final_output =
     (case bind (start_query logs start end) (\<lambda>r. subscr_key r ''queryId'') of
        Inl e \<Rightarrow> Some (Some e, final_output, 0)
      | Inr query_id \<Rightarrow>
          (case poll_query logs query_id 0 of
             None \<Rightarrow> None
           | Some (Inl e, n) \<Rightarrow> Some (Some e, final_output, n)
           | Some (Inr response, n) \<Rightarrow>
               (case bind (subscr_key response ''results'') py_iter of
                  Inl e \<Rightarrow> Some (Some e, final_output, n)
                | Inr records \<Rightarrow>
                    (case collect_records literal_eval records final_output of
                       (err, out) \<Rightarrow> Some (err, out, n)))))"

text \<open>
  The state of the window loop: the local variables, the windows queried so far and the
  seconds slept so far.
\<close>

record usage_state =
  epoch_start :: int
  epoch_end :: int
  final_output :: "real task_sample list"
  queried :: "(int \<times> int) list"
  slept :: nat

text \<open>
  \<open>while epoch_end < current_epoch_time\<close> inside the \<open>try\<close>. The loop ends when the window
  passes the current time or when a round raises; with an interval of zero or less it
  never ends, so it is a partial function. The result is the exception caught, if any,
  and the final state.
\<close>

partial_function (option) window_loop ::
  "log_client \<Rightarrow> (pyval \<Rightarrow> log_message result) \<Rightarrow> int \<Rightarrow> int \<Rightarrow> usage_state
    \<Rightarrow> (error option \<times> usage_state) option" where
  "window_loop logs literal_eval interval current_epoch_time st =
     (if epoch_end st < current_epoch_time
      then
        (case run_window logs literal_eval (epoch_start st) (epoch_end st) (final_output st) of
           None \<Rightarrow> None
         | Some (err, out, n) \<Rightarrow>
             (case err of
                Some e \<Rightarrow>
                  Some (Some e,
                    st\<lparr> final_output := out,
                        queried := queried st @ [(epoch_start st, epoch_end st)],
                        slept := slept st + n \<rparr>)
              | None \<Rightarrow>
                  window_loop logs literal_eval interval current_epoch_time
                    \<lparr> epoch_start = epoch_end st,
                      epoch_end = epoch_end st + interval,
                      final_output = out,
                      queried = queried st @ [(epoch_start st, epoch_end st)],
                      slept = slept st + n \<rparr>))
      else Some (None, st))"

declare window_loop.simps [code]

text \<open>The arithmetic mean of a list of numbers.\<close>

definition mean :: "real list \<Rightarrow> real" where
  "mean xs = sum_list xs / real (length xs)"

text \<open>
  \<open>groupby(['task_id', 'container_instance_id']).mean().reset_index()\<close>: one row for each
  pair, in the order of the pairs; each measurement of a row is what pandas computes as
  the mean of the column over the records of the group, a value of a float64 column. The
  floating-point computation of pandas is not part of the sources: \<open>column_mean\<close>, from
  the values of the group in the order of the records to the float64 result, is a
  parameter of the model.
\<close>

definition sample_key :: "'v task_sample \<Rightarrow> string \<times> string" where
  "sample_key s = (sample_task_id s, container_instance_id s)"

definition group_rows ::
  "real task_sample list \<Rightarrow> string \<times> string \<Rightarrow> real task_sample list" where
  "group_rows rows k = filter (\<lambda>s. sample_key s = k) rows"

definition mean_row ::
  "(real list \<Rightarrow> float64) \<Rightarrow> real task_sample list \<Rightarrow> string \<times> string
    \<Rightarrow> float64 task_sample" where
  "mean_row column_mean rows k =
     \<lparr> sample_task_id = fst k, container_instance_id = snd k,
       cpu_used = column_mean (map cpu_used (group_rows rows k)),
       cpu_passed = column_mean (map cpu_passed (group_rows rows k)),
       memory_used = column_mean (map memory_used (group_rows rows k)),
       memory_passed = column_mean (map memory_passed (group_rows rows k)) \<rparr>"

definition groupby_mean ::
  "(real list \<Rightarrow> float64) \<Rightarrow> real task_sample list \<Rightarrow> float64 task_sample list" where
  "groupby_mean column_mean rows =
     map (mean_row column_mean rows) (sort (remdups (map sample_key rows)))"

text \<open>
  What a call of \<open>get_resource_usage\<close> leaves behind: the table returned, the records it
  was built from, the file \<open>task_resource_usage.csv\<close> if written, the exception logged by
  the handler if any, the windows queried and the seconds slept.
\<close>

record usage_result =
  final_df :: "float64 task_sample list"
  collected :: "real task_sample list"
  usage_csv :: "float64 task_sample list option"
  logged_error :: "error option"
  windows :: "(int \<times> int) list"
  seconds_slept :: nat

definition usage_result_of ::
  "(real list \<Rightarrow> float64) \<Rightarrow> error option \<times> usage_state \<Rightarrow> usage_result" where
  "usage_result_of column_mean r =
     (case r of (err, st) \<Rightarrow>
        \<lparr> final_df = (if length (final_output st) > 0
                      then groupby_mean column_mean (final_output st) else []),
          collected = final_output st,
          usage_csv = (if length (final_output st) > 0
                       then Some (groupby_mean column_mean (final_output st)) else None),
          logged_error = err,
          windows = queried st,
          seconds_slept = slept st \<rparr>)"

text \<open>The \<open>j\<close>-th window queried: its start and end time.\<close>

definition nth_window :: "int \<Rightarrow> int \<Rightarrow> nat \<Rightarrow> int \<times> int" where
  "nth_window batch_start interval j =
     (batch_start + int j * interval, batch_start + (int j + 1) * interval)"

text \<open>
  \<open>batch_start\<close> is the start time in seconds since the epoch, \<open>interval\<close> the query
  interval, \<open>current_epoch_time\<close> the time of the call.
\<close>

definition get_resource_usage ::
  "log_client \<Rightarrow> (pyval \<Rightarrow> log_message result) \<Rightarrow> (real list \<Rightarrow> float64) \<Rightarrow> int \<Rightarrow> int \<Rightarrow> int
    \<Rightarrow> usage_result option" where
  "get_resource_usage logs literal_eval column_mean batch_start interval current_epoch_time =
     map_option (usage_result_of column_mean)
       (window_loop logs literal_eval interval current_epoch_time
          \<lparr> epoch_start = batch_start, epoch_end = batch_start + interval,
            final_output = [], queried = [], slept = 0 \<rparr>)"









section \<open>Summary aggregation: \<open>get_summaries\<close>\<close>

text \<open>
  One line of \<open>configs/job_names_and_modules.csv\<close>. The file is not part of the sources;
  its columns are the ones the script reads, and the type of the module number is left
  open (any ordered type).
\<close>

record 'n module_row =
  mod_job_name :: string
  mod_module_name :: string
  mod_module_number :: 'n
  mod_main_module_name :: string

text \<open>A time stamp column holds milliseconds, or nothing (\<open>NaT\<close>).\<close>

definition timestamp :: "pyval \<Rightarrow> int option" where
  "timestamp v = (case v of PInt i \<Rightarrow> Some i | _ \<Rightarrow> None)"

text \<open>\<open>(stopped - started) / np.timedelta64(1, 'h')\<close>, missing when a side is missing.\<close>

definition hours_between :: "int option \<Rightarrow> int option \<Rightarrow> real option" where
  "hours_between started stopped =
     (case started of
        None \<Rightarrow> None
      | Some s \<Rightarrow> (case stopped of None \<Rightarrow> None | Some e \<Rightarrow> Some (real_of_int (e - s) / 3600000)))"

text \<open>A row of \<open>temp_df\<close> after the left merge with the module table.\<close>

record 'n temp_row =
  tmp_job_name :: pyval
  tmp_started_at :: "int option"
  tmp_stopped_at :: "int option"
  tmp_avg_duration :: "real option"
  tmp_module :: "'n module_row option"

definition is_succeeded :: "job_record \<Rightarrow> bool" where
  "is_succeeded row = (job_status row = PStr ''SUCCEEDED'')"

definition temp_rows_of :: "'n module_row list \<Rightarrow> job_record \<Rightarrow> 'n temp_row list" where
  "temp_rows_of job_modules_df row =
     (let started = timestamp (started_at row);
          stopped = timestamp (stopped_at row);
          matches = filter (\<lambda>m. PStr (mod_job_name m) = job_name row) job_modules_df;
          base = \<lparr> tmp_job_name = job_name row, tmp_started_at = started,
                   tmp_stopped_at = stopped,
                   tmp_avg_duration = hours_between started stopped,
                   tmp_module = None \<rparr>
      in if matches = [] then [base]
         else map (\<lambda>m. base\<lparr> tmp_module := Some m \<rparr>) matches)"

text \<open>Minimum, maximum and sum of a column, skipping missing values.\<close>

definition present :: "'a option list \<Rightarrow> 'a list" where
  "present xs = concat (map (\<lambda>x. case x of None \<Rightarrow> [] | Some y \<Rightarrow> [y]) xs)"

definition min_present :: "int option list \<Rightarrow> int option" where
  "min_present xs = (case present xs of [] \<Rightarrow> None | y # ys \<Rightarrow> Some (fold min ys y))"

definition max_present :: "int option list \<Rightarrow> int option" where
  "max_present xs = (case present xs of [] \<Rightarrow> None | y # ys \<Rightarrow> Some (fold max ys y))"

text \<open>\<open>np.average\<close> of a group: missing as soon as one value is missing.\<close>

definition average :: "real option list \<Rightarrow> real option" where
  "average xs = (if None \<in> set xs then None else Some (mean (present xs)))"

text \<open>A row of \<open>submodule_summary.csv\<close>.\<close>

record 'n submodule_row =
  module_number_x :: 'n
  main_module_name_x :: string
  sub_module_name :: string
  sub_started_at :: "int option"
  sub_stopped_at :: "int option"
  avg_duration_across_all_jobs :: "real option"
  job_counts :: nat
  duration :: "real option"

text \<open>The grouping key of a merged row; rows without a module are dropped by \<open>groupby\<close>.\<close>

definition module_key :: "'n temp_row \<Rightarrow> (string \<times> 'n \<times> string) option" where
  "module_key t =
     map_option (\<lambda>m. (mod_module_name m, mod_module_number m, mod_main_module_name m)) (tmp_module t)"

text \<open>
  \<open>value_counts([...]).reset_index(name='job_counts')\<close>: each key with its number of rows,
  the most frequent first.
\<close>

definition value_counts ::
  "'n::linorder temp_row list \<Rightarrow> ((string \<times> 'n \<times> string) \<times> nat) list" where
  "value_counts temp_df =
     sort_key (\<lambda>kc. - int (snd kc))
       (map (\<lambda>k. (k, length (filter (\<lambda>t. module_key t = Some k) temp_df)))
          (sort (remdups (present (map module_key temp_df)))))"

text \<open>Missing time stamps sort last.\<close>

definition nat_last :: "int option \<Rightarrow> nat \<times> int" where
  "nat_last t = (case t of None \<Rightarrow> (1, 0) | Some x \<Rightarrow> (0, x))"

definition submodule_summary ::
  "'n::linorder temp_row list \<Rightarrow> 'n submodule_row list" where
  "submodule_summary temp_df =
     sort_key (\<lambda>r. (module_number_x r, nat_last (sub_started_at r)))
       (concat (map (\<lambda>k.
          (let grp = filter (\<lambda>t. module_key t = Some k) temp_df;
               started = min_present (map tmp_started_at grp);
               stopped = max_present (map tmp_stopped_at grp)
           in map (\<lambda>kc.
                \<lparr> module_number_x = fst (snd k), main_module_name_x = snd (snd k),
                  sub_module_name = fst k,
                  sub_started_at = started, sub_stopped_at = stopped,
                  avg_duration_across_all_jobs = average (map tmp_avg_duration grp),
                  job_counts = snd kc,
                  duration = hours_between started stopped \<rparr>)
                (filter (\<lambda>kc. fst (fst kc) = fst k) (value_counts temp_df))))
          (sort (remdups (present (map module_key temp_df))))))"

text \<open>A row of \<open>highlevel_summary.csv\<close>; the duration is printed as \<open>%H:%M:%S\<close>.\<close>

record 'n highlevel_row =
  hl_module_number :: 'n
  hl_main_module_name :: string
  hl_started_at :: "int option"
  hl_stopped_at :: "int option"
  hl_job_counts :: nat
  hl_duration :: "string option"

definition two_digits :: "nat \<Rightarrow> string" where
  "two_digits n = [digit_char (n div 10), digit_char (n mod 10)]"

definition clock_time :: "int option \<Rightarrow> int option \<Rightarrow> string option" where
  "clock_time started stopped =
     (case started of
        None \<Rightarrow> None
      | Some s \<Rightarrow>
          (case stopped of
             None \<Rightarrow> None
           | Some e \<Rightarrow>
               (let secs = nat (((e - s) div 1000) mod 86400)
                in Some (two_digits (secs div 3600) @ '':'' @ two_digits (secs mod 3600 div 60)
                         @ '':'' @ two_digits (secs mod 60)))))"

definition highlevel_summary ::
  "'n::linorder submodule_row list \<Rightarrow> 'n highlevel_row list" where
  "highlevel_summary submodule_summary_df =
     map (\<lambda>k.
       (let grp = filter (\<lambda>r. (module_number_x r, main_module_name_x r) = k) submodule_summary_df;
            started = min_present (map sub_started_at grp);
            stopped = max_present (map sub_stopped_at grp)
        in \<lparr> hl_module_number = fst k, hl_main_module_name = snd k,
             hl_started_at = started, hl_stopped_at = stopped,
             hl_job_counts = sum_list (map job_counts grp),
             hl_duration = clock_time started stopped \<rparr>))
       (sort (remdups (map (\<lambda>r. (module_number_x r, main_module_name_x r)) submodule_summary_df)))"

text \<open>
  The two tables \<open>get_summaries\<close> writes, from the module table read from the
  configuration file and the job table passed in.
\<close>

definition get_summaries ::
  "'n::linorder module_row list \<Rightarrow> job_record list
    \<Rightarrow> 'n submodule_row list \<times> 'n highlevel_row list" where
  "get_summaries job_modules_df job_details_df =
     (let success_job_details_df = filter is_succeeded job_details_df;
          temp_df = concat (map (temp_rows_of job_modules_df) success_job_details_df);
          submodule_summary_df = submodule_summary temp_df
      in (submodule_summary_df, highlevel_summary submodule_summary_df))"

section \<open>The run: \<open>main\<close>\<close>

text \<open>
  The table written to the job details file: the job table itself, or the job table
  joined with the resource usage (\<open>pd.merge(..., on="task_id", how="left")\<close>).
\<close>

datatype job_table =
  Plain "job_record list"
| Merged "(job_record \<times> float64 task_sample option) list"

definition merge_left ::
  "job_record list \<Rightarrow> float64 task_sample list
    \<Rightarrow> (job_record \<times> float64 task_sample option) list" where
  "merge_left jobs usage =
     concat (map (\<lambda>j.
       (let matches = filter (\<lambda>s. sample_task_id s = task_id j) usage
        in if matches = [] then [(j, None)] else map (\<lambda>s. (j, Some s)) matches)) jobs)"

definition jobs_of :: "job_table \<Rightarrow> job_record list" where
  "jobs_of t = (case t of Plain rows \<Rightarrow> rows | Merged rows \<Rightarrow> map fst rows)"

text \<open>The files of the output directory, in the order they are written.\<close>

datatype 'n csv_file =
  TaskResourceUsageCsv "float64 task_sample list"
| JobDetailsCsv job_table
| SubmoduleSummaryCsv "'n submodule_row list"
| HighlevelSummaryCsv "'n highlevel_row list"

record 'n outcome =
  raised :: "error option"
  files :: "'n csv_file list"

text \<open>
  The end of \<open>main\<close>, from the line that writes the job details: \<open>output_df\<close> is the local
  variable, bound (\<open>Some\<close>) or not.
\<close>

definition write_reports ::
  "'n::linorder module_row list \<Rightarrow> 'n csv_file list \<Rightarrow> job_table option \<Rightarrow> 'n outcome" where
  "write_reports job_modules_df written output_df =
     (case output_df of
        None \<Rightarrow> \<lparr> raised = Some (UnboundLocalError ''output_df''), files = written \<rparr>
      | Some t \<Rightarrow>
          (case get_summaries job_modules_df (jobs_of t) of
             (sub, high) \<Rightarrow>
               \<lparr> raised = None,
                 files = written @ [JobDetailsCsv t, SubmoduleSummaryCsv sub,
                                    HighlevelSummaryCsv high] \<rparr>))"

definition usage_files :: "usage_result \<Rightarrow> 'n csv_file list" where
  "usage_files res = (case usage_csv res of None \<Rightarrow> [] | Some rows \<Rightarrow> [TaskResourceUsageCsv rows])"

text \<open>
  \<open>main\<close> with the globals of the script as parameters: the two clients, the behaviour
  of the libraries the model leaves open (the parser \<open>literal_eval\<close>, the mean of a
  column, the order of a set, the conversion of a time stamp), the cutoff in
  milliseconds, the start time in seconds, the log group name (\<open>None\<close> when the option is
  not given), the query interval, the time of the run and the module table.
\<close>

definition main ::
  "batch_client \<Rightarrow> log_client \<Rightarrow> (pyval \<Rightarrow> log_message result) \<Rightarrow> (real list \<Rightarrow> float64)
    \<Rightarrow> (string list \<Rightarrow> string list) \<Rightarrow> (pyval \<Rightarrow> pyval) \<Rightarrow> int \<Rightarrow> int
    \<Rightarrow> string option \<Rightarrow> int \<Rightarrow> int \<Rightarrow> 'n::linorder module_row list \<Rightarrow> 'n outcome option" where
  "main client logs literal_eval column_mean list_of_set to_datetime epoch_batch_start batch_start
        cloudwatch_log_group_name cloudwatch_query_interval current_epoch_time job_modules_df =
     (case get_batch_job_id_list client epoch_batch_start of
        None \<Rightarrow> None
      | Some (Inl e) \<Rightarrow> Some \<lparr> raised = Some e, files = [] \<rparr>
      | Some (Inr job_id_list) \<Rightarrow>
          if job_id_list \<noteq> []
          then
            (case get_job_details client list_of_set to_datetime job_id_list of
               Inl e \<Rightarrow> Some \<lparr> raised = Some e, files = [] \<rparr>
             | Inr (batch_job_details_df, warnings) \<Rightarrow>
                 if length batch_job_details_df > 0
                    \<and> cloudwatch_log_group_name \<noteq> None \<and> cloudwatch_log_group_name \<noteq> Some []
                 then
                   (case get_resource_usage logs literal_eval column_mean batch_start
                           cloudwatch_query_interval current_epoch_time of
                      None \<Rightarrow> None
                    | Some res \<Rightarrow>
                        Some (write_reports job_modules_df (usage_files res)
                          (if length (final_df res) > 0
                           then Some (Merged (merge_left batch_job_details_df (final_df res)))
                           else None)))
                 else Some (write_reports job_modules_df [] (Some (Plain batch_job_details_df))))
          else Some \<lparr> raised = None, files = [] \<rparr>)"

section \<open>The listing served by the batch service\<close>

text \<open>
  A job summary of a listing page, with the fields the script reads, and the pages as the
  service returns them: a dictionary with the summaries and, on every page but the last
  of a status, the continuation token.
\<close>

record job_summary =
  jobId :: string
  jobName :: string
  createdAt :: int

definition summary_val :: "job_summary \<Rightarrow> pyval" where
  "summary_val s =
     PDict [(''jobId'', PStr (jobId s)), (''jobName'', PStr (jobName s)),
            (''createdAt'', PInt (createdAt s))]"

definition page_val :: "job_summary list \<Rightarrow> string option \<Rightarrow> pyval" where
  "page_val summaries token =
     PDict ((''jobSummaryList'', PList (map summary_val summaries))
            # (case token of None \<Rightarrow> [] | Some t \<Rightarrow> [(''nextToken'', PStr t)]))"

text \<open>
  \<open>serves svc token pages\<close>: called with \<open>token\<close>, the listing call \<open>svc\<close> of one status
  returns the first of \<open>pages\<close>, whose token leads to the next one, up to the last page,
  which has no token.
\<close>

fun serves ::
  "(pyval option \<Rightarrow> pyval result) \<Rightarrow> pyval option \<Rightarrow> (job_summary list \<times> string option) list
    \<Rightarrow> bool" where
  "serves svc token [] = False"
| "serves svc token [(summaries, next)] =
     (next = None \<and> svc token = Inr (page_val summaries None))"
| "serves svc token ((summaries, next) # page # pages) =
     (case next of
        None \<Rightarrow> False
      | Some t \<Rightarrow> svc token = Inr (page_val summaries (Some t))
                  \<and> serves svc (Some (PStr t)) (page # pages))"

text \<open>The ids the filter keeps from a list of summaries.\<close>

definition created_after :: "int \<Rightarrow> job_summary list \<Rightarrow> pyval list" where
  "created_after epoch_batch_start summaries =
     map (\<lambda>s. PStr (jobId s)) (filter (\<lambda>s. createdAt s > epoch_batch_start) summaries)"

text \<open>All summaries of a listing, page after page.\<close>

definition listed :: "(job_summary list \<times> string option) list \<Rightarrow> job_summary list" where
  "listed pages = concat (map fst pages)"

text \<open>The first page of a listing, as \<open>list_jobs\<close> returns it.\<close>

definition first_page :: "(job_summary list \<times> string option) list \<Rightarrow> pyval" where
  "first_page pages = (case pages of [] \<Rightarrow> PNone | (summaries, next) # _ \<Rightarrow> page_val summaries next)"

section \<open>Sample inputs\<close>

text \<open>A job description as \<open>describe_jobs\<close> returns it, with the direct resource fields.\<close>

definition sample_attempt :: "string \<Rightarrow> pyval" where
  "sample_attempt t =
     PDict [(''container'',
             PDict [(''containerInstanceArn'', PStr ''ci/i-1''), (''taskArn'', PStr (''task/'' @ t))])]"

definition sample_description :: "string \<Rightarrow> string \<Rightarrow> pyval \<Rightarrow> pyval" where
  "sample_description name st container =
     PDict [(''jobs'',
             PList [PDict [(''jobName'', PStr name), (''status'', PStr st),
                           (''startedAt'', PInt 1000), (''stoppedAt'', PInt 5000),
                           (''attempts'', PList [sample_attempt ''t-1'']),
                           (''container'', container)]])]"

definition direct_container :: pyval where
  "direct_container = PDict [(''image'', PStr ''img''), (''vcpus'', PInt 4), (''memory'', PInt 8192)]"

text \<open>A container that has its resources in the requirements list only.\<close>

definition requirements_container :: "string \<Rightarrow> pyval" where
  "requirements_container img =
     PDict [(''image'', PStr img),
            (''resourceRequirements'',
             PList [PDict [(''value'', PStr ''4''), (''type'', PStr ''VCPU'')],
                    PDict [(''value'', PStr ''8192''), (''type'', PStr ''MEMORY'')]])]"

text \<open>A response without the list of jobs: reading it fails.\<close>

definition empty_description :: pyval where
  "empty_description = PDict [(''jobs'', PList [])]"

text \<open>
  A mocked listing call: it returns the first page of the given pages without a token, and
  the page that follows the page carrying the token otherwise.
\<close>

fun page_after :: "(job_summary list \<times> string option) list \<Rightarrow> string \<Rightarrow> pyval result" where
  "page_after [] t = Inl (ClientError ''list_jobs'')"
| "page_after [p] t = Inl (ClientError ''list_jobs'')"
| "page_after ((summaries, next) # (summaries', next') # pages) t =
     (if next = Some t then Inr (page_val summaries' next')
      else page_after ((summaries', next') # pages) t)"

definition serve_listing ::
  "(job_summary list \<times> string option) list \<Rightarrow> pyval option \<Rightarrow> pyval result" where
  "serve_listing pages token =
     (case token of
        None \<Rightarrow> Inr (first_page pages)
      | Some (PStr t) \<Rightarrow> page_after pages t
      | Some _ \<Rightarrow> Inl (ClientError ''list_jobs''))"

text \<open>
  A queue with two pages of succeeded jobs, one page with a failed job and no running
  job; \<open>job-2\<close> is created at the instant 1000.
\<close>

definition paged_listing :: "string \<Rightarrow> (job_summary list \<times> string option) list" where
  "paged_listing st =
     (if st = ''SUCCEEDED''
      then [([\<lparr> jobId = ''job-1'', jobName = ''ModuleA'', createdAt = 900 \<rparr>,
              \<lparr> jobId = ''job-2'', jobName = ''ModuleA'', createdAt = 1000 \<rparr>], Some ''tok-1''),
            ([\<lparr> jobId = ''job-3'', jobName = ''ModuleA'', createdAt = 1500 \<rparr>], None)]
      else if st = ''FAILED''
      then [([\<lparr> jobId = ''job-4'', jobName = ''ModuleA'', createdAt = 2000 \<rparr>], None)]
      else [([], None)])"

text \<open>A queue whose only job has a name with the text \<open>nextToken\<close> in it.\<close>

definition token_name_listing :: "string \<Rightarrow> (job_summary list \<times> string option) list" where
  "token_name_listing st =
     (if st = ''SUCCEEDED''
      then [([\<lparr> jobId = ''job-1'', jobName = ''nextToken-check'', createdAt = 1500 \<rparr>], None)]
      else [([], None)])"

text \<open>
  The descriptions served: an empty description for \<open>job-empty\<close>, an error for
  \<open>job-gone\<close>, a description with a requirements list for \<open>job-tools\<close> (image
  \<open>tools/memory-profiler\<close>) and for \<open>job-list\<close> (image \<open>img\<close>), a description with
  direct fields for every other job id.
\<close>

definition sample_describe :: "pyval \<Rightarrow> pyval result" where
  "sample_describe jid =
     (if jid = PStr ''job-empty'' then Inr empty_description
      else if jid = PStr ''job-gone'' then Inl (ClientError ''describe_jobs'')
      else if jid = PStr ''job-tools''
        then Inr (sample_description ''ModuleA'' ''SUCCEEDED''
                    (requirements_container ''tools/memory-profiler''))
      else if jid = PStr ''job-list''
        then Inr (sample_description ''ModuleA'' ''SUCCEEDED'' (requirements_container ''img''))
      else Inr (sample_description ''ModuleA'' ''SUCCEEDED'' direct_container))"

definition sample_client :: "(string \<Rightarrow> (job_summary list \<times> string option) list) \<Rightarrow> batch_client" where
  "sample_client listing =
     \<lparr> list_jobs = (\<lambda>st. serve_listing (listing st)), describe_jobs = sample_describe \<rparr>"

text \<open>Rows of a job table and a module table.\<close>

definition sample_job :: "string \<Rightarrow> string \<Rightarrow> int \<Rightarrow> int \<Rightarrow> job_record" where
  "sample_job name st started stopped =
     \<lparr> job_id = PStr ''id'', job_name = PStr name, job_status = PStr st,
       started_at = PInt started, stopped_at = PInt stopped,
       image_field = PStr ''img'', vcpus = PInt 4, memory = PInt 8192,
       num_attempts = 1, num_of_instances = 1, instance_arn_endings = ''i-1'',
       task_id = ''t-1'', reasons = PNone \<rparr>"

definition sample_modules :: "int module_row list" where
  "sample_modules =
     [\<lparr> mod_job_name = ''ModuleA'', mod_module_name = ''GatherA'', mod_module_number = 1,
        mod_main_module_name = ''Gather'' \<rparr>]"

text \<open>Responses of the log service, and two mocked log clients.\<close>

definition running_response :: pyval where
  "running_response = PDict [(''status'', PStr ''Running''), (''results'', PList [])]"

definition complete_response :: "pyval list \<Rightarrow> pyval" where
  "complete_response records = PDict [(''status'', PStr ''Complete''), (''results'', PList records)]"

definition message_row :: "string \<Rightarrow> pyval" where
  "message_row text = PList [PDict [(''field'', PStr ''@message''), (''value'', PStr text)]]"

text \<open>A service whose queries never leave the state \<open>Running\<close>.\<close>

definition stuck_logs :: log_client where
  "stuck_logs =
     \<lparr> start_query = (\<lambda>start end. Inr (PDict [(''queryId'', PInt start)])),
       get_query_results = (\<lambda>query_id n. Inr running_response) \<rparr>"

text \<open>
  A service whose queries complete at the third fetch. The window starting at 100 has two
  task messages and a container message; the window starting at 110 has a task message,
  a message that does not parse, and another task message; the window starting at 200
  has twice the same task message, with the CPU measurement 9007199254740993; the other
  windows are empty.
\<close>

definition sample_logs :: log_client where
  "sample_logs =
     \<lparr> start_query = (\<lambda>start end. Inr (PDict [(''queryId'', PInt start)])),
       get_query_results = (\<lambda>query_id n.
         if n < 2 then Inr running_response
         else if query_id = PInt 100
           then Inr (complete_response
                  [message_row ''task-a'', message_row ''container'', message_row ''task-b''])
         else if query_id = PInt 110
           then Inr (complete_response
                  [message_row ''task-c'', message_row ''broken'', message_row ''task-a''])
         else if query_id = PInt 200
           then Inr (complete_response [message_row ''task-big'', message_row ''task-big''])
         else Inr (complete_response [])) \<rparr>"

definition sample_message :: "string \<Rightarrow> string \<Rightarrow> real \<Rightarrow> real \<Rightarrow> log_message" where
  "sample_message ty task cpu mem =
     \<lparr> Type = Some ty, TaskId = Some task, ContainerInstanceId = Some ''i-1'',
       CpuUtilized = Some cpu, CpuReserved = Some 4,
       MemoryUtilized = Some mem, MemoryReserved = Some 8192 \<rparr>"

definition sample_literal_eval :: "pyval \<Rightarrow> log_message result" where
  "sample_literal_eval text =
     (if text = PStr ''task-a'' then Inr (sample_message ''Task'' ''t-1'' 1 100)
      else if text = PStr ''task-b'' then Inr (sample_message ''Task'' ''t-1'' 2 300)
      else if text = PStr ''task-c'' then Inr (sample_message ''Task'' ''t-2'' 3 500)
      else if text = PStr ''task-big''
        then Inr (sample_message ''Task'' ''t-9'' 9007199254740993 100)
      else if text = PStr ''container'' then Inr (sample_message ''Container'' ''t-1'' 9 900)
      else Inl ValueError)"


text \<open>
  Mocked library behaviour: a set is listed in the order of the last occurrences, a count
  of milliseconds is a time stamp and anything else is not, and the mean of a column is
  the float64 value of its arithmetic mean (the sample columns have a float64 mean).
\<close>

definition sample_list_of_set :: "string list \<Rightarrow> string list" where
  "sample_list_of_set xs = remdups xs"

definition sample_to_datetime :: "pyval \<Rightarrow> pyval" where
  "sample_to_datetime v = (case v of PInt i \<Rightarrow> PInt i | _ \<Rightarrow> PNone)"

definition sample_column_mean :: "real list \<Rightarrow> float64" where
  "sample_column_mean xs = float64_of (mean xs)"



text \<open>The row of the job table read from a description with direct fields.\<close>

definition sample_detail :: "string \<Rightarrow> job_record" where
  "sample_detail jid =
     \<lparr> job_id = PStr jid, job_name = PStr ''ModuleA'', job_status = PStr ''SUCCEEDED'',
       started_at = PInt 1000, stopped_at = PInt 5000,
       image_field = PStr ''img'', vcpus = PInt 4, memory = PInt 8192,
       num_attempts = 1, num_of_instances = 1, instance_arn_endings = ''i-1'',
       task_id = ''t-1'', reasons = PNone \<rparr>"

section \<open>Basic facts\<close>

lemma bind_Inl [simp]: "bind (Inl e) f = Inl e"
  by (simp add: bind_def)

lemma bind_Inr [simp]: "bind (Inr x) f = f x"
  by (simp add: bind_def)

lemma str_contains_iff: "str_contains sub s \<longleftrightarrow> sublist sub s"
  by (induction s) (auto simp: sublist_Cons_right)

section \<open>Paging through a listing\<close>

lemma collect_job_ids_summaries:
  "collect_job_ids c (map summary_val ss) acc = Inr (acc @ created_after c ss)"
  by (induction ss arbitrary: acc)
     (simp_all add: created_after_def summary_val_def subscr_key_def py_gt_def)

lemma page_job_ids_page:
  "page_job_ids c (page_val ss tok) acc = Inr (acc @ created_after c ss)"
  by (simp add: page_job_ids_def page_val_def subscr_key_def py_iter_def collect_job_ids_summaries)

lemma next_token_keys_page:
  "next_token_keys (page_val ss tok) = Inr (case tok of None \<Rightarrow> PNone | Some t \<Rightarrow> PStr t)"
  by (cases tok) (simp_all add: next_token_keys_def page_val_def py_keys_def subscr_key_def)

lemma created_after_append:
  "created_after c (xs @ ys) = created_after c xs @ created_after c ys"
  by (simp add: created_after_def)

lemma listed_Cons: "listed ((ss, nxt) # pages) = ss @ listed pages"
  by (simp add: listed_def)

text \<open>The \<open>while\<close> loop reads every page that follows a token and then stops.\<close>

lemma paginate_serves:
  "serves (list_jobs client st) (Some (PStr t)) pages \<Longrightarrow>
   paginate client st c (PStr t) acc = Some (Inr (acc @ created_after c (listed pages)))"
proof (induction pages arbitrary: t acc)
  case Nil
  then show ?case by simp
next
  case (Cons p pages)
  obtain ss nxt where p: "p = (ss, nxt)" by (cases p)
  show ?case
  proof (cases pages)
    case Nil
    with Cons.prems p show ?thesis
      by (subst paginate.simps)
         (simp add: page_job_ids_page next_token_keys_page listed_def paginate.simps)
  next
    case (Cons q qs)
    with Cons.prems p obtain t' where t': "nxt = Some t'"
      "list_jobs client st (Some (PStr t)) = Inr (page_val ss (Some t'))"
      "serves (list_jobs client st) (Some (PStr t')) pages"
      by (auto split: option.splits)
    from Cons.IH[OF t'(3)] t' p show ?thesis
      by (subst paginate.simps)
         (simp add: page_job_ids_page next_token_keys_page listed_Cons created_after_append)
  qed
qed

text \<open>The text of a page that carries a token has the word \<open>nextToken\<close> in it.\<close>

lemma contains_token_key:
  "str_contains ''nextToken'' (py_str (page_val ss (Some t)))"
proof -
  have "sublist ''nextToken'' (repr_str ''nextToken'')"
    by (simp add: repr_str_def quote_char_def escape_char_def sublist_Cons_right)
  then have "sublist ''nextToken'' (repr_str ''nextToken'' @ '': '' @ py_repr (PStr t) @ ''}'')"
    by (simp add: sublist_append)
  then have "sublist ''nextToken''
     ((''{'' @ (repr_str ''jobSummaryList'' @ '': '' @ py_repr (PList (map summary_val ss))) @ '', '')
       @ (repr_str ''nextToken'' @ '': '' @ py_repr (PStr t) @ ''}''))"
    by (subst sublist_append) (rule disjI2, rule disjI1)
  then show ?thesis
    by (simp add: str_contains_iff py_str_def page_val_def)
qed

lemma next_token_str_last:
  "\<not> str_contains ''nextToken'' (py_str (page_val ss None)) \<Longrightarrow>
   next_token_str (page_val ss None) = Inr PNone"
  by (simp add: next_token_str_def)

lemma next_token_str_more:
  "next_token_str (page_val ss (Some t)) = Inr (PStr t)"
  using contains_token_key[of ss t]
  by (simp add: next_token_str_def) (simp add: page_val_def subscr_key_def)

lemma job_ids_with_status_serves:
  assumes "serves (list_jobs client st) None pages"
    and "length pages = 1 \<longrightarrow> \<not> str_contains ''nextToken'' (py_str (first_page pages))"
  shows "job_ids_with_status client c st = Some (Inr (created_after c (listed pages)))"
proof (cases pages)
  case Nil
  with assms show ?thesis by simp
next
  case (Cons p rest)
  obtain ss nxt where p: "p = (ss, nxt)" by (cases p)
  show ?thesis
  proof (cases rest)
    case Nil
    with assms Cons p show ?thesis
      by (simp add: job_ids_with_status_def page_job_ids_page next_token_str_last
          first_page_def listed_def paginate.simps)
  next
    case (Cons q qs)
    with assms \<open>pages = p # rest\<close> p obtain t' where t': "nxt = Some t'"
      "list_jobs client st None = Inr (page_val ss (Some t'))"
      "serves (list_jobs client st) (Some (PStr t')) rest"
      by (auto split: option.splits)
    from paginate_serves[OF t'(3)] t' p \<open>pages = p # rest\<close> show ?thesis
      by (simp add: job_ids_with_status_def page_job_ids_page next_token_str_more
          listed_Cons created_after_append)
  qed
qed

lemma status_loop_serves:
  assumes "\<forall>st\<in>set sts. serves (list_jobs client st) None (listing st)"
    and "\<forall>st\<in>set sts. length (listing st) = 1 \<longrightarrow>
           \<not> str_contains ''nextToken'' (py_str (first_page (listing st)))"
  shows "status_loop client c sts acc
           = Some (Inr (acc @ created_after c (concat (map (\<lambda>st. listed (listing st)) sts))))"
  using assms
proof (induction sts arbitrary: acc)
  case Nil
  then show ?case by (simp add: created_after_def)
next
  case (Cons st sts)
  from Cons.prems have "job_ids_with_status client c st
      = Some (Inr (created_after c (listed (listing st))))"
    by (intro job_ids_with_status_serves) simp_all
  moreover from Cons.prems have "status_loop client c sts (acc @ created_after c (listed (listing st)))
      = Some (Inr ((acc @ created_after c (listed (listing st)))
           @ created_after c (concat (map (\<lambda>st. listed (listing st)) sts))))"
    by (intro Cons.IH) simp_all
  ultimately show ?case
    by (simp add: created_after_append)
qed

text \<open>
  For a service that serves finitely many pages for each status, the three pagination
  loops end and the ids kept from every page are returned, status after status, as long
  as the text of a single-page listing does not have the word \<open>nextToken\<close> in it.
\<close>

lemma get_batch_job_id_list_listing:
  assumes "\<forall>st\<in>set status_needed. serves (list_jobs client st) None (listing st)"
    and "\<forall>st\<in>set status_needed. length (listing st) = 1 \<longrightarrow>
           \<not> str_contains ''nextToken'' (py_str (first_page (listing st)))"
  shows "get_batch_job_id_list client c
           = Some (Inr (created_after c (concat (map (\<lambda>st. listed (listing st)) status_needed))))"
  using status_loop_serves[OF assms, of c "[]"]
  by (simp add: get_batch_job_id_list_def)

lemmas eval_listing =
  get_batch_job_id_list_def status_needed_def job_ids_with_status_def sample_client_def
  serve_listing_def first_page_def page_val_def summary_val_def
  page_job_ids_def subscr_key_def py_iter_def py_gt_def next_token_str_def next_token_keys_def
  py_keys_def py_str_def repr_str_def quote_char_def escape_char_def show_int_def
  show_nat.simps digit_char_def paginate.simps

text \<open>
  C1. The filter keeps the jobs created strictly after the cutoff: for every queue listing
  and cutoff, the ids returned are those of the listed jobs whose creation time is greater
  than the cutoff, in the order of the listing. A job created at the cutoff instant is
  left out, like every job created before it.
\<close>

theorem get_batch_job_id_list_strictly_after:
  assumes "\<forall>st\<in>set status_needed. serves (list_jobs client st) None (listing st)"
    and "\<forall>st\<in>set status_needed. length (listing st) = 1 \<longrightarrow>
           \<not> str_contains ''nextToken'' (py_str (first_page (listing st)))"
  shows "get_batch_job_id_list client cutoff
           = Some (Inr (map (\<lambda>s. PStr (jobId s))
               (filter (\<lambda>s. createdAt s > cutoff)
                  (concat (map (\<lambda>st. listed (listing st)) status_needed)))))"
  using get_batch_job_id_list_listing[OF assms, of cutoff]
  by (simp add: created_after_def)

theorem get_batch_job_id_list_strictly_after_witness:
  "get_batch_job_id_list (sample_client paged_listing) 1000
     = Some (Inr [PStr ''job-3'', PStr ''job-4''])"
proof -
  have pages: "\<forall>st\<in>set status_needed.
      serves (list_jobs (sample_client paged_listing) st) None (paged_listing st)"
    by (simp add: status_needed_def sample_client_def serve_listing_def first_page_def
        paged_listing_def)
  have words: "\<forall>st\<in>set status_needed. length (paged_listing st) = 1 \<longrightarrow>
      \<not> str_contains ''nextToken'' (py_str (first_page (paged_listing st)))"
    by (simp add: eval_listing paged_listing_def)
  from get_batch_job_id_list_strictly_after [OF pages words, of 1000] show ?thesis
    by (simp add: status_needed_def paged_listing_def listed_def)
qed

text \<open>
  A job created at the cutoff instant is not kept: \<open>job-2\<close> is created at the instant
  1000 and is not in the list returned for the cutoff 1000.
\<close>

theorem job_created_at_cutoff_excluded:
  "createdAt (hd (tl (fst (hd (paged_listing ''SUCCEEDED''))))) = 1000
   \<and> jobId (hd (tl (fst (hd (paged_listing ''SUCCEEDED''))))) = ''job-2''
   \<and> get_batch_job_id_list (sample_client paged_listing) 1000
       = Some (Inr [PStr ''job-3'', PStr ''job-4''])"
  by (simp add: eval_listing paged_listing_def)

text \<open>
  C2. With a finite sequence of pages the listing should end and return the ids of every
  page. Here the only page of the succeeded jobs has no token, but the name of its job has
  the text \<open>nextToken\<close> in it: the test on the text of the first response holds, the
  token is read, and \<open>KeyError\<close> leaves the function. (The loop over the later pages
  tests the keys of the response and reads every page, see \<open>get_batch_job_id_list_listing\<close>.)
\<close>

theorem get_batch_job_id_list_token_in_text:
  "get_batch_job_id_list (sample_client token_name_listing) 1000
     = Some (Inl (KeyError ''nextToken''))"
  by (simp add: eval_listing token_name_listing_def)

section \<open>Reading the resources of a job\<close>

lemma sublist_join:
  "x \<in> set xs \<Longrightarrow> sublist s x \<Longrightarrow> sublist s (join sep xs)"
proof (induction sep xs rule: join.induct)
  case (3 sep x' y ys)
  then show ?case
    by (auto simp: sublist_append)
qed simp_all

text \<open>The text of a dictionary has the text of each of its keys in it.\<close>

lemma key_in_text:
  assumes "map_of kvs k = Some v"
  shows "sublist (repr_str k) (py_repr (PDict kvs))"
proof -
  from assms have "(k, v) \<in> set kvs"
    by (rule map_of_SomeD)
  then have "repr_str k @ '': '' @ py_repr v
      \<in> set (map (\<lambda>kv. repr_str (fst kv) @ '': '' @ py_repr (snd kv)) kvs)"
    by force
  moreover have "sublist (repr_str k) (repr_str k @ '': '' @ py_repr v)"
    by (simp add: sublist_append)
  ultimately have "sublist (repr_str k)
      (join '', '' (map (\<lambda>kv. repr_str (fst kv) @ '': '' @ py_repr (snd kv)) kvs))"
    by (rule sublist_join)
  then show ?thesis
    by (simp add: sublist_append sublist_Cons_right)
qed

text \<open>A direct field is used when the container has it.\<close>

lemma resource_value_direct:
  assumes "subscr_key job ''container'' = Inr (PDict kvs)"
    and "map_of kvs k = Some v"
    and "sublist k (repr_str k)"
  shows "resource_value job k n = Inr v"
proof -
  from key_in_text[OF assms(2)] assms(3) have "sublist k (py_repr (PDict kvs))"
    by (rule sublist_order.order_trans[rotated])
  with assms show ?thesis
    by (simp add: resource_value_def str_contains_iff py_str_def subscr_key_def)
qed

text \<open>The requirements list is read when the text of the container does not have the key in it.\<close>

lemma resource_value_positional:
  assumes "subscr_key job ''container'' = Inr c"
    and "\<not> str_contains k (py_str c)"
  shows "resource_value job k n =
           bind (subscr_key c ''resourceRequirements'') (\<lambda>reqs.
           bind (subscr_idx reqs n) (\<lambda>req. subscr_key req ''value''))"
  using assms by (simp add: resource_value_def)

lemmas eval_details =
  get_job_details_def sample_client_def sample_describe_def sample_description_def
  sample_attempt_def requirements_container_def direct_container_def
  job_fields_def instances_and_tasks_def container_arn_ending_def arn_ending_def
  resource_value_def get_or_none_def py_in_def py_len_def
  subscr_key_def subscr_idx_def py_iter_def py_str_def repr_str_def quote_char_def
  escape_char_def show_int_def show_nat.simps digit_char_def

text \<open>
  C3. Without direct fields, the values at index 0 and 1 of the requirements list should
  be taken. Both jobs below have the requirements list only. For \<open>job-list\<close> the memory
  is read at index 1. For \<open>job-tools\<close> the image is \<open>tools/memory-profiler\<close>: the test
  \<open>'memory' in str(container)\<close> holds, the direct field is read, \<open>KeyError\<close> is raised
  and swallowed, and the job is left out of the table.
\<close>

theorem job_fields_memory_in_image_name:
  "job_fields list_of_set (PStr ''job-tools'')
       (sample_description ''ModuleA'' ''SUCCEEDED''
          (requirements_container ''tools/memory-profiler''))
     = Inl (KeyError ''memory'')
   \<and> (case get_job_details (sample_client paged_listing) list_of_set to_datetime
            [PStr ''job-list'', PStr ''job-tools''] of
         Inl e \<Rightarrow> False
       | Inr (rows, warnings) \<Rightarrow>
           map job_id rows = [PStr ''job-list''] \<and> map memory rows = [PStr ''8192'']
           \<and> map fst warnings = [PStr ''job-tools''])"
  by (simp add: eval_details)

section \<open>Summaries read the successful jobs only\<close>

text \<open>
  C8. \<open>get_summaries\<close> computes both summaries from the rows of the job table whose status
  is SUCCEEDED: the result is the result on that subset, and a row whose status is FAILED
  or RUNNING can be removed from the table without changing either summary. The
  summaries are a function of the module table and the job table alone.
\<close>

theorem get_summaries_succeeded_only:
  assumes "job_status row = PStr ''FAILED'' \<or> job_status row = PStr ''RUNNING''"
  shows "get_summaries job_modules_df job_details_df
           = get_summaries job_modules_df (filter is_succeeded job_details_df)
         \<and> get_summaries job_modules_df (before @ row # after)
           = get_summaries job_modules_df (before @ after)"
proof -
  from assms have "\<not> is_succeeded row"
    by (auto simp: is_succeeded_def)
  then show ?thesis
    by (simp add: get_summaries_def)
qed

theorem get_summaries_succeeded_only_witness:
  "get_summaries sample_modules
      [sample_job ''ModuleA'' ''SUCCEEDED'' 0 3600000, sample_job ''ModuleA'' ''FAILED'' 5 6]
     = get_summaries sample_modules [sample_job ''ModuleA'' ''SUCCEEDED'' 0 3600000]"
  using get_summaries_succeeded_only
    [of "sample_job ''ModuleA'' ''FAILED'' 5 6" sample_modules "[]"
        "[sample_job ''ModuleA'' ''SUCCEEDED'' 0 3600000]" "[]"]
  by (simp add: sample_job_def)

section \<open>The job loop and its handler\<close>

lemma job_loop_bound_all_fail:
  assumes "\<forall>jid\<in>set job_id_list. job_fails client list_of_set jid"
  shows "\<exists>warnings'. job_loop client list_of_set job_id_list final_list (Some r) warnings
           = Inr (final_list, warnings')"
  using assms
proof (induction job_id_list arbitrary: r warnings)
  case Nil
  then show ?case by simp
next
  case (Cons jid rest)
  then show ?case
    by (cases "describe_jobs client jid")
       (auto simp: job_fails_def split: sum.splits)
qed

text \<open>
  C10. If every job of a non-empty list fails and the fetch of the first job returns a
  response, every failure is swallowed and the job left out; the record list is then
  empty, the data frame built from it has no column, and \<open>get_job_details\<close> raises
  \<open>KeyError\<close> on the column \<open>started_at\<close> instead of returning an empty table.
\<close>

theorem get_job_details_all_swallowed:
  assumes "job_id_list \<noteq> []"
    and "\<forall>jid\<in>set job_id_list. job_fails client list_of_set jid"
    and "\<not> isl (describe_jobs client (hd job_id_list))"
  shows "get_job_details client list_of_set to_datetime job_id_list
           = Inl (KeyError ''started_at'')"
proof -
  from assms(1) obtain jid rest where ids: "job_id_list = jid # rest"
    by (cases job_id_list) auto
  with assms(3) obtain r where r: "describe_jobs client jid = Inr r"
    by (cases "describe_jobs client jid") auto
  from assms(2) ids have rest: "\<forall>j\<in>set rest. job_fails client list_of_set j"
    and "job_fails client list_of_set jid"
    by auto
  with r obtain e where e: "job_fields list_of_set jid r = Inl e"
    by (auto simp: job_fails_def isl_def)
  from job_loop_bound_all_fail[OF rest] obtain w
    where "job_loop client list_of_set rest [] (Some r) [(jid, r)] = Inr ([], w)"
    by blast
  with ids r e show ?thesis
    by (simp add: get_job_details_def)
qed

theorem get_job_details_all_swallowed_witness:
  "get_job_details (sample_client paged_listing) sample_list_of_set sample_to_datetime
       [PStr ''job-empty'', PStr ''job-gone'']
     = Inl (KeyError ''started_at'')"
proof -
  have ids: "[PStr ''job-empty'', PStr ''job-gone''] \<noteq> []"
    by simp
  have fails: "\<forall>jid\<in>set [PStr ''job-empty'', PStr ''job-gone''].
      job_fails (sample_client paged_listing) sample_list_of_set jid"
    by (simp add: job_fails_def sample_client_def sample_describe_def empty_description_def
        job_fields_def subscr_key_def subscr_idx_def)
  have fetched: "\<not> isl (describe_jobs (sample_client paged_listing)
      (hd [PStr ''job-empty'', PStr ''job-gone'']))"
    by (simp add: sample_client_def sample_describe_def)
  show ?thesis
    by (rule get_job_details_all_swallowed [OF ids fails fetched])
qed

text \<open>
  When the fetch of the first job raises, the job fails as well, but nothing is swallowed:
  the exception that leaves the function comes from the handler, and the column
  \<open>started_at\<close> is never read.
\<close>

theorem get_job_details_only_fetch_raises:
  "job_fails (sample_client paged_listing) sample_list_of_set (PStr ''job-gone'')
   \<and> get_job_details (sample_client paged_listing) sample_list_of_set sample_to_datetime
         [PStr ''job-gone'']
       = Inl (UnboundLocalError ''response'')"
  by (simp add: job_fails_def get_job_details_def sample_client_def sample_describe_def)

text \<open>
  C4. A job whose fetch or parsing raises should be logged, left out, and the loop should go
  on. Here the fetch of the first job raises: the handler formats the warning with the
  variable \<open>response\<close>, which is still unbound, and the exception leaves the function; the
  second job is never read.
\<close>

theorem get_job_details_first_fetch_fails:
  "get_job_details (sample_client paged_listing) list_of_set to_datetime
       [PStr ''job-gone'', PStr ''job-ok'']
     = Inl (UnboundLocalError ''response'')"
  by (simp add: get_job_details_def sample_client_def sample_describe_def)

section \<open>Polling a query\<close>

lemma reports_running_step:
  assumes "reports_running logs q n"
  shows "poll_query logs q n = poll_query logs q (Suc n)"
proof -
  from assms obtain r where r: "get_query_results logs q n = Inr r"
    "subscr_key r ''status'' = Inr (PStr ''Running'')"
    by (auto simp: reports_running_def split: sum.splits)
  then show ?thesis
    by (subst poll_query.simps) simp
qed

lemma poll_query_from:
  assumes "\<forall>i<k. reports_running logs q (n + i)"
    and "get_query_results logs q (n + k) = Inr r"
    and "subscr_key r ''status'' = Inr s" and "s \<noteq> PStr ''Running''"
  shows "poll_query logs q n = Some (Inr r, Suc (n + k))"
  using assms
proof (induction k arbitrary: n)
  case 0
  then have "r \<noteq> PNone"
    by (auto simp: subscr_key_def)
  with 0 show ?case
    by (subst poll_query.simps) simp
next
  case (Suc k)
  from Suc.prems(1) have "reports_running logs q n"
    by (metis add.right_neutral zero_less_Suc)
  then have "poll_query logs q n = poll_query logs q (Suc n)"
    by (rule reports_running_step)
  moreover have "poll_query logs q (Suc n) = Some (Inr r, Suc (Suc n + k))"
  proof (rule Suc.IH)
    show "\<forall>i<k. reports_running logs q (Suc n + i)"
      using Suc.prems(1) by (metis Suc_less_eq add_Suc_shift)
    show "get_query_results logs q (Suc n + k) = Inr r"
      using Suc.prems(2) by simp
  qed (use Suc.prems in auto)
  ultimately show ?case by simp
qed

lemma poll_query_some_stops:
  assumes "poll_query logs q n = Some y"
  shows "\<exists>i. \<not> reports_running logs q i"
proof (rule poll_query.raw_induct
    [where P = "\<lambda>logs q n y. \<exists>i. \<not> reports_running logs q i", OF _ assms])
  fix poll logs q n y
  assume IH: "\<And>logs q n y. poll logs q n = Some y \<Longrightarrow> \<exists>i. \<not> reports_running logs q i"
    and step: "(case get_query_results logs q n of
        Inl e \<Rightarrow> Some (Inl e, Suc n)
      | Inr response \<Rightarrow>
          if response = PNone then poll logs q (Suc n)
          else case subscr_key response ''status'' of
                 Inl e \<Rightarrow> Some (Inl e, Suc n)
               | Inr status \<Rightarrow>
                   if status = PStr ''Running'' then poll logs q (Suc n)
                   else Some (Inr response, Suc n)) = Some y"
  show "\<exists>i. \<not> reports_running logs q i"
  proof (cases "reports_running logs q n")
    case True
    then obtain r where r: "get_query_results logs q n = Inr r"
      "subscr_key r ''status'' = Inr (PStr ''Running'')"
      by (auto simp: reports_running_def split: sum.splits)
    with step have "poll logs q (Suc n) = Some y"
      by (simp split: if_splits)
    then show ?thesis by (rule IH)
  next
    case False
    then show ?thesis by blast
  qed
qed

lemma poll_query_forever:
  assumes "\<forall>i. reports_running logs q i"
  shows "poll_query logs q n = None"
  using assms poll_query_some_stops[of logs q n]
  by (cases "poll_query logs q n") auto

lemma poll_query_returns:
  assumes "poll_query logs q n = Some (Inr r, m)"
  shows "subscr_key r ''status'' \<noteq> Inr (PStr ''Running'') \<and> n < m
        \<and> get_query_results logs q (m - 1) = Inr r"
proof -
  have "\<forall>r m. y = (Inr r, m) \<longrightarrow>
        subscr_key r ''status'' \<noteq> Inr (PStr ''Running'') \<and> n < m
        \<and> get_query_results logs q (m - 1) = Inr r"
    if "poll_query logs q n = Some y" for y
  proof (rule poll_query.raw_induct
    [where P = "\<lambda>logs q n y. \<forall>r m. y = (Inr r, m) \<longrightarrow>
        subscr_key r ''status'' \<noteq> Inr (PStr ''Running'') \<and> n < m
        \<and> get_query_results logs q (m - 1) = Inr r", OF _ that])
    fix poll logs q n y
    assume IH: "\<And>logs q n y. poll logs q n = Some y \<Longrightarrow> \<forall>r m. y = (Inr r, m) \<longrightarrow>
        subscr_key r ''status'' \<noteq> Inr (PStr ''Running'') \<and> n < m
        \<and> get_query_results logs q (m - 1) = Inr r"
    and step: "(case get_query_results logs q n of
        Inl e \<Rightarrow> Some (Inl e, Suc n)
      | Inr response \<Rightarrow>
          if response = PNone then poll logs q (Suc n)
          else case subscr_key response ''status'' of
                 Inl e \<Rightarrow> Some (Inl e, Suc n)
               | Inr status \<Rightarrow>
                   if status = PStr ''Running'' then poll logs q (Suc n)
                   else Some (Inr response, Suc n)) = Some y"
    show "\<forall>r m. y = (Inr r, m) \<longrightarrow>
        subscr_key r ''status'' \<noteq> Inr (PStr ''Running'') \<and> n < m
        \<and> get_query_results logs q (m - 1) = Inr r"
    proof (cases "get_query_results logs q n")
      case (Inl e)
      with step show ?thesis by auto
    next
      case (Inr response)
      show ?thesis
      proof (cases "response = PNone \<or> subscr_key response ''status'' = Inr (PStr ''Running'')")
        case True
        with Inr step have "poll logs q (Suc n) = Some y"
          by (auto split: sum.splits if_splits)
        from IH[OF this] show ?thesis
          by (auto dest: Suc_lessD)
      next
        case False
        with Inr step show ?thesis
          by (auto split: sum.splits if_splits)
      qed
    qed
  qed
  with assms show ?thesis by blast
qed

text \<open>
  C6. Each round of the polling loop sleeps one second and fetches the results once. If
  the service reports \<open>Running\<close> at the first \<open>k\<close> fetches and another status at the
  next one, the loop returns that response after \<open>k + 1\<close> rounds; a response returned by
  the loop never has the status \<open>Running\<close>; and if the service reports \<open>Running\<close> at
  every fetch, the loop does not return.
\<close>

theorem poll_query_until_not_running:
  "((\<forall>i<k. reports_running logs q i) \<and> get_query_results logs q k = Inr r
      \<and> subscr_key r ''status'' = Inr s \<and> s \<noteq> PStr ''Running''
      \<longrightarrow> poll_query logs q 0 = Some (Inr r, Suc k))
   \<and> (poll_query logs q 0 = Some (Inr r', m)
      \<longrightarrow> subscr_key r' ''status'' \<noteq> Inr (PStr ''Running'') \<and> 0 < m
          \<and> get_query_results logs q (m - 1) = Inr r')
   \<and> ((\<forall>i. reports_running logs q i) \<longrightarrow> poll_query logs q 0 = None)"
proof (intro conjI impI)
  assume "(\<forall>i<k. reports_running logs q i) \<and> get_query_results logs q k = Inr r
      \<and> subscr_key r ''status'' = Inr s \<and> s \<noteq> PStr ''Running''"
  then show "poll_query logs q 0 = Some (Inr r, Suc k)"
    using poll_query_from[of k logs q 0 r s] by simp
next
  assume "poll_query logs q 0 = Some (Inr r', m)"
  from poll_query_returns[OF this]
  show "subscr_key r' ''status'' \<noteq> Inr (PStr ''Running'')" "0 < m"
    "get_query_results logs q (m - 1) = Inr r'"
    by simp_all
next
  assume "\<forall>i. reports_running logs q i"
  then show "poll_query logs q 0 = None"
    by (rule poll_query_forever)
qed

theorem poll_query_until_not_running_witness:
  "poll_query sample_logs (PInt 120) 0 = Some (Inr (complete_response []), 3)
   \<and> poll_query stuck_logs (PInt 100) 0 = None"
proof -
  have running: "\<forall>i<2. reports_running sample_logs (PInt 120) i"
    by (simp add: reports_running_def sample_logs_def running_response_def subscr_key_def)
  have fetched: "get_query_results sample_logs (PInt 120) 2 = Inr (complete_response [])"
    by (simp add: sample_logs_def)
  have status: "subscr_key (complete_response []) ''status'' = Inr (PStr ''Complete'')"
    by (simp add: complete_response_def subscr_key_def)
  have stuck: "\<forall>i. reports_running stuck_logs (PInt 100) i"
    by (simp add: reports_running_def stuck_logs_def running_response_def subscr_key_def)
  from running fetched status stuck
    poll_query_until_not_running
      [of 2 sample_logs "PInt 120" "complete_response []" "PStr ''Complete''"]
    poll_query_until_not_running [of k stuck_logs "PInt 100"]
  show ?thesis
    by (simp add: numeral_3_eq_3)
qed

section \<open>The window loop\<close>






lemmas eval_usage =
  run_window_def sample_logs_def sample_literal_eval_def sample_message_def message_row_def
  complete_response_def running_response_def record_sample_def sample_of_def msg_key_def
  subscr_key_def subscr_idx_def py_iter_def nth_window_def poll_query.simps






section \<open>Task records and their means\<close>

lemma sample_key_mean_row [simp]: "sample_key (mean_row column_mean rows k) = k"
  by (simp add: sample_key_def mean_row_def)

lemma groupby_mean_keys:
  "map sample_key (groupby_mean column_mean rows) = sort (remdups (map sample_key rows))"
  by (simp add: groupby_mean_def comp_def)


lemma groupby_mean_Nil [simp]: "groupby_mean column_mean [] = []"
  by (simp add: groupby_mean_def)

lemma groupby_mean_eq_Nil: "groupby_mean column_mean rows = [] \<longleftrightarrow> rows = []"
proof
  assume "groupby_mean column_mean rows = []"
  then have "map sample_key (groupby_mean column_mean rows) = []"
    by simp
  then have "set (sort (remdups (map sample_key rows))) = {}"
    by (simp add: groupby_mean_keys)
  then show "rows = []"
    by simp
qed simp















section \<open>The run without resource rows\<close>

lemma get_resource_usage_no_rows:
  assumes "get_resource_usage logs le column_mean start interval now = Some res"
    and "final_df res = []"
  shows "usage_csv res = None"
  using assms
  by (auto simp: get_resource_usage_def usage_result_of_def groupby_mean_eq_Nil
      split: prod.splits if_splits)

lemma sample_listing_run:
  "get_batch_job_id_list (sample_client paged_listing) 1000
     = Some (Inr [PStr ''job-3'', PStr ''job-4''])"
  by (simp add: eval_listing paged_listing_def)

lemma sample_details_run:
  "get_job_details (sample_client paged_listing) sample_list_of_set sample_to_datetime
       [PStr ''job-3'', PStr ''job-4'']
     = Inr ([sample_detail ''job-3'', sample_detail ''job-4''], [])"
  by (simp add: eval_details sample_detail_def sample_list_of_set_def sample_to_datetime_def)

lemma sample_quiet_run:
  "get_resource_usage sample_logs sample_literal_eval sample_column_mean 1 10 16
     = Some \<lparr> final_df = [], collected = [], usage_csv = None, logged_error = None,
              windows = [(1, 11)], seconds_slept = 3 \<rparr>"
  by (simp add: get_resource_usage_def usage_result_of_def eval_usage window_loop.simps)

text \<open>
  C9. When a log group name is given, the job table has rows and the resource usage table
  has none, \<open>output_df\<close> is bound on no path: the line that writes the job details raises
  \<open>UnboundLocalError\<close>, and no file has been written.
\<close>

theorem main_output_df_unbound:
  assumes "get_batch_job_id_list client cutoff = Some (Inr job_id_list)"
    and "job_id_list \<noteq> []"
    and "get_job_details client list_of_set to_datetime job_id_list
           = Inr (batch_job_details_df, warnings)"
    and "length batch_job_details_df > 0"
    and "cloudwatch_log_group_name = Some name" and "name \<noteq> []"
    and "get_resource_usage logs le column_mean start interval now = Some res"
    and "final_df res = []"
  shows "main client logs le column_mean list_of_set to_datetime cutoff start
            cloudwatch_log_group_name interval now job_modules_df
           = Some \<lparr> raised = Some (UnboundLocalError ''output_df''), files = [] \<rparr>"
proof -
  from assms(7,8) have "usage_csv res = None"
    by (rule get_resource_usage_no_rows)
  with assms show ?thesis
    by (simp add: main_def write_reports_def usage_files_def)
qed

theorem main_output_df_unbound_witness:
  "main (sample_client paged_listing) sample_logs sample_literal_eval sample_column_mean
      sample_list_of_set sample_to_datetime 1000 1
      (Some ''/aws/ecs/containerinsights/performance'') 10 16 sample_modules
     = Some \<lparr> raised = Some (UnboundLocalError ''output_df''), files = [] \<rparr>"
proof -
  have rows: "length [sample_detail ''job-3'', sample_detail ''job-4''] > 0"
    and ids: "[PStr ''job-3'', PStr ''job-4''] \<noteq> []"
    and name: "''/aws/ecs/containerinsights/performance'' \<noteq> []"
    by simp_all
  show ?thesis
    by (rule main_output_df_unbound
        [OF sample_listing_run ids sample_details_run rows refl name sample_quiet_run])
       simp
qed

end
